theory Spec2Isabelle
  imports Main "HOL-Library.Monad_Syntax"
begin

section \<open>Text and values\<close>

text \<open>
  Python text is a sequence of code points. It is modelled as a \<^typ>\<open>string\<close> whose
  characters are the code points U+0000 to U+00FF (ASCII and the Latin-1 supplement, which
  holds the accented letters of the spreadsheets this service reads); \<open>of_char\<close> is
  \<open>ord\<close>. On this range the Unicode tables the library functions use (\<open>str.isspace\<close>,
  \<open>\d\<close>, \<open>str.lower\<close>, NFKD decomposition) are finite and written out below. Text with
  code points above U+00FF is outside the model.

  The values that reach \<open>normalize_string\<close> and \<open>format_date\<close> are the labels and cells of a
  pandas \<open>Series\<close>: strings, and, when a header cell is not text, \<open>None\<close>, booleans and
  integers.
\<close>

datatype pyval = PyStr string | PyNone | PyBool bool | PyInt int

definition digit_char :: "nat \<Rightarrow> char" where
  "digit_char d = char_of (48 + d)"

fun nat_digits :: "nat \<Rightarrow> string" where
  "nat_digits n = (if n < 10 then [digit_char n] else nat_digits (n div 10) @ [digit_char (n mod 10)])"

declare nat_digits.simps [simp del]

text \<open>\<open>str(v)\<close>; a format field \<open>{v}\<close> of an f-string renders these values the same way.\<close>

fun py_str :: "pyval \<Rightarrow> string" where
  "py_str (PyStr s) = s"
| "py_str PyNone = ''None''"
| "py_str (PyBool b) = (if b then ''True'' else ''False'')"
| "py_str (PyInt i) = (if i < 0 then ''-'' @ nat_digits (nat (- i)) else nat_digits (nat i))"

fun isinstance_str :: "pyval \<Rightarrow> bool" where
  "isinstance_str (PyStr s) = True"
| "isinstance_str v = False"

text \<open>\<open>str.isspace\<close>, which is also the class \<open>\s\<close> of \<open>re\<close> on text patterns.\<close>

definition py_isspace :: "char \<Rightarrow> bool" where
  "py_isspace c \<longleftrightarrow> (of_char c :: nat) \<in> {9, 10, 11, 12, 13, 28, 29, 30, 31, 32, 133, 160}"

text \<open>The class \<open>\d\<close> of \<open>re\<close>: the decimal digits, which below U+0100 are \<open>0\<close> to \<open>9\<close>.\<close>

definition is_digit :: "char \<Rightarrow> bool" where
  "is_digit c \<longleftrightarrow> 48 \<le> (of_char c :: nat) \<and> (of_char c :: nat) \<le> 57"

text \<open>\<open>str.lower\<close>: A to Z, and the capital letters U+00C0 to U+00DE but for the
  multiplication sign U+00D7, move up by 32.\<close>

definition lower_char :: "char \<Rightarrow> char" where
  "lower_char c =
     (let n = (of_char c :: nat)
      in if (65 \<le> n \<and> n \<le> 90) \<or> (192 \<le> n \<and> n \<le> 222 \<and> n \<noteq> 215) then char_of (n + 32) else c)"

definition py_lower :: "string \<Rightarrow> string" where
  "py_lower s = map lower_char s"

section \<open>Key normalizer\<close>

text \<open>
  \<open>unicodedata.normalize('NFKD', text).encode('ASCII', 'ignore').decode('ASCII')\<close>, one code
  point at a time: the ASCII code points of its compatibility decomposition. An ASCII
  character is its own decomposition; an accented Latin-1 letter decomposes into its base
  letter and combining marks above U+00FF, which the encoding drops; a character with no
  ASCII part in its decomposition (\<open>U+00DF\<close>, \<open>U+00F8\<close>, \<open>U+00E6\<close>, ...) disappears.
\<close>

definition nfkd_ascii :: "char \<Rightarrow> string" where
  "nfkd_ascii c =
     (let n = (of_char c :: nat)
      in if n < 128 then [c]
         else if n \<in> {160, 168, 175, 180, 184} then '' ''
         else if n = 170 then ''a''
         else if n = 178 then ''2''
         else if n = 179 then ''3''
         else if n = 185 then ''1''
         else if n = 186 then ''o''
         else if n = 188 then ''14''
         else if n = 189 then ''12''
         else if n = 190 then ''34''
         else if 192 \<le> n \<and> n \<le> 197 then ''A''
         else if n = 199 then ''C''
         else if 200 \<le> n \<and> n \<le> 203 then ''E''
         else if 204 \<le> n \<and> n \<le> 207 then ''I''
         else if n = 209 then ''N''
         else if 210 \<le> n \<and> n \<le> 214 then ''O''
         else if 217 \<le> n \<and> n \<le> 220 then ''U''
         else if n = 221 then ''Y''
         else if 224 \<le> n \<and> n \<le> 229 then ''a''
         else if n = 231 then ''c''
         else if 232 \<le> n \<and> n \<le> 235 then ''e''
         else if 236 \<le> n \<and> n \<le> 239 then ''i''
         else if n = 241 then ''n''
         else if 242 \<le> n \<and> n \<le> 246 then ''o''
         else if 249 \<le> n \<and> n \<le> 252 then ''u''
         else if n = 253 \<or> n = 255 then ''y''
         else [])"

definition strip_accents :: "string \<Rightarrow> string" where
  "strip_accents s = concat (map nfkd_ascii s)"

text \<open>\<open>string.punctuation\<close>.\<close>

definition punctuation :: string where
  "punctuation = ''!'' @ [CHR 0x22] @ ''#$%&'' @ [CHR 0x27] @ ''()*+,-./:;<=>?@['' @ [CHR 0x5C]
     @ '']^_'' @ [CHR 0x60] @ ''{|}~''"

text \<open>\<open>text.replace(old, new)\<close> for an \<open>old\<close> of one character.\<close>

definition replace_char :: "char \<Rightarrow> char \<Rightarrow> string \<Rightarrow> string" where
  "replace_char old new s = map (\<lambda>c. if c = old then new else c) s"

text \<open>\<open>text.split()\<close>: the maximal runs of characters that are not whitespace.\<close>

function split_ws :: "string \<Rightarrow> string list" where
  "split_ws [] = []"
| "split_ws (c # cs) =
     (if py_isspace c then split_ws cs
      else (c # takeWhile (\<lambda>x. \<not> py_isspace x) cs)
             # split_ws (dropWhile (\<lambda>x. \<not> py_isspace x) cs))"
  by pat_completeness auto
termination
  by (relation "measure length") (auto simp: le_imp_less_Suc length_dropWhile_le)

text \<open>\<open>' '.join(words)\<close>.\<close>

fun join_space :: "string list \<Rightarrow> string" where
  "join_space [] = []"
| "join_space [w] = w"
| "join_space (w # ws) = w @ '' '' @ join_space ws"

text \<open>
  \<open>normalize_string\<close> (sharepoint_utils.py, nested in \<open>create_word_from_template\<close>). A value
  that is not a string leaves through the first \<open>return\<close>, lower-cased only.
\<close>

definition normalize_string :: "pyval \<Rightarrow> string" where
  "normalize_string v =
     (if \<not> isinstance_str v then py_lower (py_str v)
      else let t1 = strip_accents (py_str v);
               t2 = py_lower t1;
               t3 = fold (\<lambda>ch t. replace_char ch CHR '' '' t) punctuation t2
           in join_space (split_ws t3))"

text \<open>
  The steps of the specification, each as its words say, applied to every value:
  coerce to string, strip diacritics, lower-case, replace every punctuation character with
  a space, collapse each run of whitespace to one space, trim.
\<close>

definition is_punctuation :: "char \<Rightarrow> bool" where
  "is_punctuation c \<longleftrightarrow> c \<in> set punctuation"

definition replace_punctuation :: "string \<Rightarrow> string" where
  "replace_punctuation s = map (\<lambda>c. if is_punctuation c then CHR '' '' else c) s"

fun collapse_ws :: "string \<Rightarrow> string" where
  "collapse_ws [] = []"
| "collapse_ws [c] = [if py_isspace c then CHR '' '' else c]"
| "collapse_ws (c # d # cs) =
     (if py_isspace c
      then (if py_isspace d then collapse_ws (d # cs) else CHR '' '' # collapse_ws (d # cs))
      else c # collapse_ws (d # cs))"

definition trim :: "string \<Rightarrow> string" where
  "trim s = rev (dropWhile py_isspace (rev (dropWhile py_isspace s)))"

definition normalize_steps :: "pyval \<Rightarrow> string" where
  "normalize_steps v =
     trim (collapse_ws (replace_punctuation (py_lower (strip_accents (py_str v)))))"

section \<open>Value formatter\<close>

datatype py_error = ValueError | KeyError | AttributeError | OSError

text \<open>\<open>int(text)\<close> on a text of decimal digits.\<close>

definition digit_val :: "char \<Rightarrow> nat" where
  "digit_val c = of_char c - 48"

definition py_int :: "string \<Rightarrow> nat" where
  "py_int s = foldl (\<lambda>n c. 10 * n + digit_val c) 0 s"

subsection \<open>The date pattern\<close>

text \<open>
  \<open>date_pattern = r'^\d{4}-\d{2}-\d{2}\s\d{2}:\d{2}:\d{2}$'\<close>: a sequence of single-character
  items, matched from the start of the text; \<open>match_items\<close> returns what is left of the text.
\<close>

datatype rx_item = Digit | Space | Lit char

fun match_items :: "rx_item list \<Rightarrow> string \<Rightarrow> string option" where
  "match_items [] s = Some s"
| "match_items (p # ps) [] = None"
| "match_items (Digit # ps) (c # cs) = (if is_digit c then match_items ps cs else None)"
| "match_items (Space # ps) (c # cs) = (if py_isspace c then match_items ps cs else None)"
| "match_items (Lit l # ps) (c # cs) = (if c = l then match_items ps cs else None)"

definition date_pattern :: "rx_item list" where
  "date_pattern =
     [Digit, Digit, Digit, Digit, Lit CHR ''-'', Digit, Digit, Lit CHR ''-'', Digit, Digit, Space,
      Digit, Digit, Lit CHR '':'', Digit, Digit, Lit CHR '':'', Digit, Digit]"

text \<open>\<open>re.match(date_pattern, value)\<close>: \<open>$\<close> holds at the end of the text and also just before
  a newline that ends it.\<close>

definition re_match_date :: "string \<Rightarrow> bool" where
  "re_match_date v =
     (case match_items date_pattern v of
        None \<Rightarrow> False
      | Some rest \<Rightarrow> rest = [] \<or> rest = [CHR 0x0A])"

subsection \<open>\<open>datetime.strptime(value, '%Y-%m-%d %H:%M:%S')\<close>\<close>

text \<open>
  \<open>_strptime\<close> turns the format into one regular expression, a group of alternatives per
  directive and \<open>\s+\<close> for the blank, and matches it from the start of the text. Each piece
  below returns its successes in the order the regular expression engine tries them: the
  value read and the text left.
\<close>

definition in_range :: "char \<Rightarrow> char \<Rightarrow> char \<Rightarrow> bool" where
  "in_range lo hi c \<longleftrightarrow> (of_char lo :: nat) \<le> of_char c \<and> (of_char c :: nat) \<le> of_char hi"

definition two_chars :: "char \<Rightarrow> char \<Rightarrow> char \<Rightarrow> char \<Rightarrow> string \<Rightarrow> (nat \<times> string) list" where
  "two_chars lo1 hi1 lo2 hi2 s =
     (case s of
        a # b # r \<Rightarrow> if in_range lo1 hi1 a \<and> in_range lo2 hi2 b then [(py_int [a, b], r)] else []
      | _ \<Rightarrow> [])"

definition one_char :: "char \<Rightarrow> char \<Rightarrow> string \<Rightarrow> (nat \<times> string) list" where
  "one_char lo hi s =
     (case s of a # r \<Rightarrow> if in_range lo hi a then [(py_int [a], r)] else [] | [] \<Rightarrow> [])"

definition blank_digit :: "string \<Rightarrow> (nat \<times> string) list" where
  "blank_digit s =
     (case s of
        a # b # r \<Rightarrow> if a = CHR '' '' \<and> in_range CHR ''1'' CHR ''9'' b then [(py_int [b], r)] else []
      | _ \<Rightarrow> [])"

text \<open>\<open>%Y\<close> is \<open>\d\d\d\d\<close>.\<close>

definition re_Y :: "string \<Rightarrow> (nat \<times> string) list" where
  "re_Y s =
     (case s of
        a # b # c # d # r \<Rightarrow>
          if is_digit a \<and> is_digit b \<and> is_digit c \<and> is_digit d then [(py_int [a, b, c, d], r)] else []
      | _ \<Rightarrow> [])"

text \<open>\<open>%m\<close> is \<open>1[0-2]|0[1-9]|[1-9]\<close>.\<close>

definition re_m :: "string \<Rightarrow> (nat \<times> string) list" where
  "re_m s = two_chars CHR ''1'' CHR ''1'' CHR ''0'' CHR ''2'' s
          @ two_chars CHR ''0'' CHR ''0'' CHR ''1'' CHR ''9'' s
          @ one_char CHR ''1'' CHR ''9'' s"

text \<open>\<open>%d\<close> is \<open>3[0-1]|[1-2]\d|0[1-9]|[1-9]| [1-9]\<close>.\<close>

definition re_d :: "string \<Rightarrow> (nat \<times> string) list" where
  "re_d s = two_chars CHR ''3'' CHR ''3'' CHR ''0'' CHR ''1'' s
          @ two_chars CHR ''1'' CHR ''2'' CHR ''0'' CHR ''9'' s
          @ two_chars CHR ''0'' CHR ''0'' CHR ''1'' CHR ''9'' s
          @ one_char CHR ''1'' CHR ''9'' s
          @ blank_digit s"

text \<open>\<open>%H\<close> is \<open>2[0-3]|[0-1]\d|\d\<close>.\<close>

definition re_H :: "string \<Rightarrow> (nat \<times> string) list" where
  "re_H s = two_chars CHR ''2'' CHR ''2'' CHR ''0'' CHR ''3'' s
          @ two_chars CHR ''0'' CHR ''1'' CHR ''0'' CHR ''9'' s
          @ one_char CHR ''0'' CHR ''9'' s"

text \<open>\<open>%M\<close> is \<open>[0-5]\d|\d\<close>.\<close>

definition re_M :: "string \<Rightarrow> (nat \<times> string) list" where
  "re_M s = two_chars CHR ''0'' CHR ''5'' CHR ''0'' CHR ''9'' s
          @ one_char CHR ''0'' CHR ''9'' s"

text \<open>\<open>%S\<close> is \<open>6[0-1]|[0-5]\d|\d\<close>.\<close>

definition re_S :: "string \<Rightarrow> (nat \<times> string) list" where
  "re_S s = two_chars CHR ''6'' CHR ''6'' CHR ''0'' CHR ''1'' s
          @ two_chars CHR ''0'' CHR ''5'' CHR ''0'' CHR ''9'' s
          @ one_char CHR ''0'' CHR ''9'' s"

definition re_lit :: "char \<Rightarrow> string \<Rightarrow> string list" where
  "re_lit l s = (case s of c # r \<Rightarrow> if c = l then [r] else [] | [] \<Rightarrow> [])"

text \<open>\<open>\s+\<close>, greedy: the longest run of whitespace first, then each shorter one.\<close>

definition re_blanks :: "string \<Rightarrow> string list" where
  "re_blanks s = map (\<lambda>k. drop k s) (rev [1 ..< Suc (length (takeWhile py_isspace s))])"

definition strptime_regex :: "string \<Rightarrow> ((nat \<times> nat \<times> nat \<times> nat \<times> nat \<times> nat) \<times> string) list" where
  "strptime_regex v = do {
     (Y, r1) \<leftarrow> re_Y v;
     r2 \<leftarrow> re_lit CHR ''-'' r1;
     (m, r3) \<leftarrow> re_m r2;
     r4 \<leftarrow> re_lit CHR ''-'' r3;
     (d, r5) \<leftarrow> re_d r4;
     r6 \<leftarrow> re_blanks r5;
     (H, r7) \<leftarrow> re_H r6;
     r8 \<leftarrow> re_lit CHR '':'' r7;
     (M, r9) \<leftarrow> re_M r8;
     r10 \<leftarrow> re_lit CHR '':'' r9;
     (S, r11) \<leftarrow> re_S r10;
     [((Y, m, d, H, M, S), r11)]
   }"

record datetime =
  dt_year :: nat
  dt_month :: nat
  dt_day :: nat
  dt_hour :: nat
  dt_minute :: nat
  dt_second :: nat

definition is_leap :: "nat \<Rightarrow> bool" where
  "is_leap y \<longleftrightarrow> y mod 4 = 0 \<and> (y mod 100 \<noteq> 0 \<or> y mod 400 = 0)"

definition days_in_month :: "nat \<Rightarrow> nat \<Rightarrow> nat" where
  "days_in_month y m =
     (if m = 2 then (if is_leap y then 29 else 28)
      else if m = 4 \<or> m = 6 \<or> m = 9 \<or> m = 11 then 30 else 31)"

text \<open>The constructor \<open>datetime(year, month, day, hour, minute, second)\<close> and its range checks.\<close>

definition datetime_new :: "nat \<Rightarrow> nat \<Rightarrow> nat \<Rightarrow> nat \<Rightarrow> nat \<Rightarrow> nat \<Rightarrow> py_error + datetime" where
  "datetime_new Y m d H M S =
     (if 1 \<le> Y \<and> Y \<le> 9999 \<and> 1 \<le> m \<and> m \<le> 12 \<and> 1 \<le> d \<and> d \<le> days_in_month Y m
         \<and> H \<le> 23 \<and> M \<le> 59 \<and> S \<le> 59
      then Inr \<lparr>dt_year = Y, dt_month = m, dt_day = d, dt_hour = H, dt_minute = M, dt_second = S\<rparr>
      else Inl ValueError)"

text \<open>
  \<open>strptime\<close> takes the first match of the regular expression; no match, text left after the
  match, and a field the constructor refuses are each a \<open>ValueError\<close>.
\<close>

definition strptime :: "string \<Rightarrow> py_error + datetime" where
  "strptime v =
     (case strptime_regex v of
        [] \<Rightarrow> Inl ValueError
      | ((Y, m, d, H, M, S), rest) # _ \<Rightarrow>
          if rest \<noteq> [] then Inl ValueError else datetime_new Y m d H M S)"

text \<open>
  \<open>date_obj.strftime('%d-%m-%Y')\<close>. \<open>%d\<close> and \<open>%m\<close> are two digits. \<open>%Y\<close> is printed by
  the C library: Windows pads the year to four digits, glibc prints a year below 1000
  without leading zeros. The rendering of the year is therefore a parameter, \<open>fmt_Y\<close>.
\<close>

definition zero_pad :: "nat \<Rightarrow> nat \<Rightarrow> string" where
  "zero_pad k n = replicate (k - length (nat_digits n)) CHR ''0'' @ nat_digits n"

definition strftime_dmY :: "(nat \<Rightarrow> string) \<Rightarrow> datetime \<Rightarrow> string" where
  "strftime_dmY fmt_Y dt = zero_pad 2 (dt_day dt) @ ''-'' @ zero_pad 2 (dt_month dt) @ ''-'' @ fmt_Y (dt_year dt)"

text \<open>
  \<open>format_date\<close> (sharepoint_utils.py, nested in \<open>create_word_from_template\<close>). \<open>py_str\<close> is
  the coercion of its first two lines: it leaves a string as it is.
\<close>

definition format_date :: "(nat \<Rightarrow> string) \<Rightarrow> pyval \<Rightarrow> string" where
  "format_date fmt_Y v =
     (let value = py_str v
      in if re_match_date value
         then (case strptime value of
                 Inr date_obj \<Rightarrow> strftime_dmY fmt_Y date_obj
               | Inl e \<Rightarrow> value)
         else value)"





text \<open>The two renderings of \<open>%Y\<close> met in practice.\<close>

definition fmt_Y_padded :: "nat \<Rightarrow> string" where
  "fmt_Y_padded y = zero_pad 4 y"

definition fmt_Y_glibc :: "nat \<Rightarrow> string" where
  "fmt_Y_glibc y = nat_digits y"

section \<open>Rows and the normalized key table\<close>

text \<open>
  A row is a pandas \<open>Series\<close>: its labels (\<open>data_row.index\<close>) with their cells, in column
  order. \<open>read_excel\<close> makes the labels of a sheet distinct, and \<open>data_row[key]\<close> is the cell
  of the label.
\<close>

type_synonym row = "(pyval \<times> pyval) list"

definition row_index :: "row \<Rightarrow> pyval list" where
  "row_index data_row = map fst data_row"

definition row_get :: "row \<Rightarrow> pyval \<Rightarrow> py_error + pyval" where
  "row_get data_row key = (case map_of data_row key of None \<Rightarrow> Inl KeyError | Some cell \<Rightarrow> Inr cell)"

text \<open>
  \<open>normalized_keys = {}\<close>, then \<open>normalized_keys[normalize_string(key)] = key\<close> for each
  label in turn (sharepoint_utils.py, lines 324 to 326).
\<close>

definition normalized_keys :: "row \<Rightarrow> (string \<rightharpoonup> pyval)" where
  "normalized_keys data_row =
     fold (\<lambda>key nk. nk(normalize_string key \<mapsto> key)) (row_index data_row) Map.empty"

section \<open>Documents\<close>

subsection \<open>The element tree of the document part\<close>

text \<open>
  An element as \<open>lxml\<close> shows it to the form-field pass: its qualified name, its \<open>w:val\<close>
  attribute when it has one, its text, and its children in document order.
\<close>

datatype xml = Elem (el_name: string) (el_val: "string option") (el_text: string) (el_children: "xml list")

text \<open>\<open>element.find('.//name')\<close>: the first descendant of that name in document order, sought
  in the children of the element.\<close>

fun find_first :: "string \<Rightarrow> xml list \<Rightarrow> xml option" where
  "find_first nm [] = None"
| "find_first nm (Elem n a t cs # es) =
     (if n = nm then Some (Elem n a t cs)
      else case find_first nm cs of Some e \<Rightarrow> Some e | None \<Rightarrow> find_first nm es)"

text \<open>
  \<open>element.findall('.//name')\<close>: all the descendants of that name, in document order. The
  list is built before the loop runs, and the loop changes texts only, so a descendant is
  named by its path: the positions to follow from the element down.
\<close>

fun findall_paths :: "string \<Rightarrow> nat \<Rightarrow> xml list \<Rightarrow> nat list list" where
  "findall_paths nm i [] = []"
| "findall_paths nm i (Elem n a t cs # es) =
     (if n = nm then [[i]] else []) @ map ((#) i) (findall_paths nm 0 cs) @ findall_paths nm (Suc i) es"

text \<open>
  \<open>text_elem.text = value\<close>. \<open>lxml\<close> accepts a text only if it is XML compatible: no control
  character but tabulation, line feed and carriage return. It removes the old text before
  it encodes the new one, so a refused assignment raises \<open>ValueError\<close> and leaves the element
  without text.
\<close>

definition xml_char :: "char \<Rightarrow> bool" where
  "xml_char c \<longleftrightarrow> 32 \<le> (of_char c :: nat) \<or> (of_char c :: nat) = 9 \<or> (of_char c :: nat) = 10 \<or> (of_char c :: nat) = 13"

definition xml_compatible :: "string \<Rightarrow> bool" where
  "xml_compatible s = list_all xml_char s"

text \<open>The text of the first descendant of that name is replaced (the loop over
  \<open>sdt.findall('.//w:t')\<close> breaks after its first element).\<close>

fun set_first_text :: "string \<Rightarrow> string \<Rightarrow> xml list \<Rightarrow> xml list" where
  "set_first_text nm v [] = []"
| "set_first_text nm v (Elem n a t cs # es) =
     (if n = nm then Elem n a v cs # es
      else if find_first nm cs \<noteq> None then Elem n a t (set_first_text nm v cs) # es
      else Elem n a t cs # set_first_text nm v es)"

subsection \<open>Runs, paragraphs and tables\<close>

text \<open>
  The placeholder pass reaches the document through \<open>python-docx\<close>: \<open>doc.paragraphs\<close>, the
  paragraphs of the body, each with its runs, and \<open>doc.tables\<close>, the tables of the body, each
  with its rows, their cells, the paragraphs of a cell and their runs. A run is its text.
  These runs are children of paragraphs that have no \<open>w:sdt\<close> above them, so the two passes
  write to different text nodes, and the runs are kept beside the element tree. (A cell
  merged across columns is listed once.)
\<close>

type_synonym run = string
type_synonym para = "run list"
type_synonym cell = "para list"
type_synonym table_row = "cell list"
type_synonym table = "table_row list"

record document =
  doc_root :: xml
  doc_paragraphs :: "para list"
  doc_tables :: "table list"

text \<open>
  \<open>run.text = s\<close>: \<open>python-docx\<close> empties the run, then appends \<open>s\<close> piece by piece. A
  tabulation becomes a \<open>w:tab\<close>, a line feed or a carriage return a \<open>w:br\<close>, and the
  characters between them a \<open>w:t\<close>, whose text \<open>lxml\<close> may refuse. \<open>append_text\<close> returns
  what \<open>run.text\<close> reads afterwards (a \<open>w:br\<close> reads as a line feed) and the error raised.
\<close>

definition flush_text :: "string \<Rightarrow> string \<Rightarrow> string \<times> py_error option" where
  "flush_text stored bfr =
     (if bfr = [] then (stored, None)
      else if xml_compatible bfr then (stored @ bfr, None)
      else (stored, Some ValueError))"

fun append_text :: "string \<Rightarrow> string \<Rightarrow> string \<Rightarrow> string \<times> py_error option" where
  "append_text stored bfr [] = flush_text stored bfr"
| "append_text stored bfr (c # cs) =
     (if c = CHR 0x09 \<or> c = CHR 0x0A \<or> c = CHR 0x0D
      then (case flush_text stored bfr of
              (stored', Some e) \<Rightarrow> (stored', Some e)
            | (stored', None) \<Rightarrow> append_text (stored' @ [if c = CHR 0x09 then c else CHR 0x0A]) [] cs)
      else append_text stored (bfr @ [c]) cs)"

definition set_run_text :: "string \<Rightarrow> string \<times> py_error option" where
  "set_run_text s = append_text [] [] s"

section \<open>Form-field pass\<close>

text \<open>
  The body of the loop over the content controls (sharepoint_utils.py, lines 343 to 364),
  for one \<open>w:sdt\<close> element. The counters \<open>tag_counters\<close> are written and never read; they
  are left out.
\<close>

definition fill_sdt :: "(nat \<Rightarrow> string) \<Rightarrow> row \<Rightarrow> (string \<rightharpoonup> pyval) \<Rightarrow> xml \<Rightarrow> xml \<times> py_error option" where
  "fill_sdt fmt_Y data_row nk sdt =
     (case find_first ''w:tag'' (el_children sdt) of
        None \<Rightarrow> (sdt, None)
      | Some tag_elem \<Rightarrow>
          (case el_val tag_elem of
             None \<Rightarrow> (sdt, None)
           | Some tag \<Rightarrow>
               (case nk (normalize_string (PyStr tag)) of
                  None \<Rightarrow> (sdt, None)
                | Some original_key \<Rightarrow>
                    (case row_get data_row original_key of
                       Inl e \<Rightarrow> (sdt, Some e)
                     | Inr cell \<Rightarrow>
                         let value = format_date fmt_Y cell
                         in if find_first ''w:t'' (el_children sdt) = None then (sdt, None)
                            else if xml_compatible value
                            then (Elem (el_name sdt) (el_val sdt) (el_text sdt)
                                    (set_first_text ''w:t'' value (el_children sdt)), None)
                            else (Elem (el_name sdt) (el_val sdt) (el_text sdt)
                                    (set_first_text ''w:t'' [] (el_children sdt)), Some ValueError)))))"

text \<open>The element at a path is replaced by what \<open>f\<close> makes of it.\<close>

fun update_at :: "nat list \<Rightarrow> (xml \<Rightarrow> xml \<times> py_error option) \<Rightarrow> xml \<Rightarrow> xml \<times> py_error option" where
  "update_at [] f e = f e"
| "update_at (i # p) f (Elem n a t cs) =
     (if i < length cs
      then (case update_at p f (cs ! i) of (c', err) \<Rightarrow> (Elem n a t (cs[i := c']), err))
      else (Elem n a t cs, None))"

text \<open>
  \<open>for sdt in root.findall('.//w:sdt', ns)\<close>, inside one \<open>try\<close>: the first exception ends the
  loop, and the elements after it are not visited.
\<close>

fun fill_sdts :: "(nat \<Rightarrow> string) \<Rightarrow> row \<Rightarrow> (string \<rightharpoonup> pyval) \<Rightarrow> nat list list \<Rightarrow> xml \<Rightarrow> xml \<times> py_error option" where
  "fill_sdts fmt_Y data_row nk [] root = (root, None)"
| "fill_sdts fmt_Y data_row nk (p # ps) root =
     (case update_at p (fill_sdt fmt_Y data_row nk) root of
        (root', Some e) \<Rightarrow> (root', Some e)
      | (root', None) \<Rightarrow> fill_sdts fmt_Y data_row nk ps root')"

definition form_field_pass :: "(nat \<Rightarrow> string) \<Rightarrow> row \<Rightarrow> (string \<rightharpoonup> pyval) \<Rightarrow> xml \<Rightarrow> xml \<times> py_error option" where
  "form_field_pass fmt_Y data_row nk root =
     fill_sdts fmt_Y data_row nk (findall_paths ''w:sdt'' 0 (el_children root)) root"

section \<open>Placeholder pass\<close>

text \<open>\<open>text.split(placeholder, 1)\<close>: the text before and after the first occurrence of the
  placeholder, \<open>None\<close> when \<open>placeholder in text\<close> is false.\<close>

fun split_first :: "string \<Rightarrow> string \<Rightarrow> (string \<times> string) option" where
  "split_first pat [] = (if pat = [] then Some ([], []) else None)"
| "split_first pat (c # cs) =
     (if take (length pat) (c # cs) = pat then Some ([], drop (length pat) (c # cs))
      else map_option (\<lambda>(a, b). (c # a, b)) (split_first pat cs))"

definition placeholder :: "pyval \<Rightarrow> string" where
  "placeholder key = ''${'' @ py_str key @ ''}''"

text \<open>
  The \<open>while\<close> loop of \<open>process_run\<close> for one key, on the text of the run. It returns the text
  of the run when the loop ends and the exception that ended it, if one did; it has no
  value when the loop never ends.
\<close>

partial_function (option) replace_loop :: "string \<Rightarrow> string \<Rightarrow> string \<Rightarrow> (string \<times> py_error option) option" where
  "replace_loop pat value text =
     (case split_first pat text of
        None \<Rightarrow> Some (text, None)
      | Some parts \<Rightarrow>
          (case set_run_text (fst parts @ value @ snd parts) of
             (text', Some e) \<Rightarrow> Some (text', Some e)
           | (text', None) \<Rightarrow> replace_loop pat value text'))"

text \<open>\<open>process_run\<close> (sharepoint_utils.py, lines 374 to 383): the loop over the labels.\<close>

fun process_keys :: "(nat \<Rightarrow> string) \<Rightarrow> row \<Rightarrow> pyval list \<Rightarrow> run \<Rightarrow> (run \<times> py_error option) option" where
  "process_keys fmt_Y data_row [] text = Some (text, None)"
| "process_keys fmt_Y data_row (key # keys) text =
     (case split_first (placeholder key) text of
        None \<Rightarrow> process_keys fmt_Y data_row keys text
      | Some parts \<Rightarrow>
          (case row_get data_row key of
             Inl e \<Rightarrow> Some (text, Some e)
           | Inr cell \<Rightarrow>
               (case replace_loop (placeholder key) (format_date fmt_Y cell) text of
                  None \<Rightarrow> None
                | Some (text', Some e) \<Rightarrow> Some (text', Some e)
                | Some (text', None) \<Rightarrow> process_keys fmt_Y data_row keys text')))"

definition process_run :: "(nat \<Rightarrow> string) \<Rightarrow> row \<Rightarrow> run \<Rightarrow> (run \<times> py_error option) option" where
  "process_run fmt_Y data_row text = process_keys fmt_Y data_row (row_index data_row) text"

text \<open>A \<open>for\<close> loop inside the \<open>try\<close> of the pass: the first exception ends it, and a step
  that never ends keeps the loop from ending.\<close>

fun for_each :: "('a \<Rightarrow> ('a \<times> py_error option) option) \<Rightarrow> 'a list \<Rightarrow> ('a list \<times> py_error option) option" where
  "for_each f [] = Some ([], None)"
| "for_each f (x # xs) =
     (case f x of
        None \<Rightarrow> None
      | Some (x', Some e) \<Rightarrow> Some (x' # xs, Some e)
      | Some (x', None) \<Rightarrow>
          (case for_each f xs of
             None \<Rightarrow> None
           | Some (xs', err) \<Rightarrow> Some (x' # xs', err)))"

text \<open>The second \<open>try\<close> block (sharepoint_utils.py, lines 369 to 398): the runs of the
  paragraphs, then the runs in the cells of the tables.\<close>

definition placeholder_pass :: "(nat \<Rightarrow> string) \<Rightarrow> row \<Rightarrow> document \<Rightarrow> (document \<times> py_error option) option" where
  "placeholder_pass fmt_Y data_row doc =
     (case for_each (for_each (process_run fmt_Y data_row)) (doc_paragraphs doc) of
        None \<Rightarrow> None
      | Some (ps, Some e) \<Rightarrow> Some (doc\<lparr>doc_paragraphs := ps\<rparr>, Some e)
      | Some (ps, None) \<Rightarrow>
          (case for_each (for_each (for_each (for_each (for_each (process_run fmt_Y data_row)))))
                  (doc_tables doc) of
             None \<Rightarrow> None
           | Some (ts, err) \<Rightarrow> Some (doc\<lparr>doc_paragraphs := ps, doc_tables := ts\<rparr>, err)))"

section \<open>Template engine\<close>

text \<open>
  The file system as \<open>create_word_from_template\<close> meets it: the files, whether the parent
  directory of a path can be made, whether a document can be saved at a path, and the
  path that \<open>create_temp_directory\<close> and the clock give when no output path is passed. A
  file is a Word document or something \<open>Document(path)\<close> cannot open.
\<close>

datatype fs_file = Docx document | NotDocx

record filesystem =
  fs_files :: "string \<rightharpoonup> fs_file"
  fs_mkdir_ok :: "string \<Rightarrow> bool"
  fs_save_ok :: "string \<Rightarrow> bool"
  fs_temp_output :: string

text \<open>
  \<open>create_word_from_template\<close> (sharepoint_utils.py, lines 252 to 407). The result is
  \<open>None\<close> when the call never returns; otherwise it is what the call returns, the output
  path or Python's \<open>None\<close>, with the file system it leaves. Every exception outside the
  two passes reaches the outer \<open>except\<close>, which returns \<open>None\<close>; an exception inside a pass
  is logged by the \<open>except\<close> of that pass and the function goes on.
\<close>

definition create_word_from_template ::
  "(nat \<Rightarrow> string) \<Rightarrow> filesystem \<Rightarrow> string \<Rightarrow> row \<Rightarrow> string option \<Rightarrow> (string option \<times> filesystem) option" where
  "create_word_from_template fmt_Y fs template_path data_row output_path =
     (case fs_files fs template_path of
        None \<Rightarrow> Some (None, fs)
      | Some f \<Rightarrow>
          let out = (case output_path of None \<Rightarrow> fs_temp_output fs | Some p \<Rightarrow> p)
          in if \<not> fs_mkdir_ok fs out then Some (None, fs)
             else (case f of
                     NotDocx \<Rightarrow> Some (None, fs)
                   | Docx doc \<Rightarrow>
                       let normalized = normalized_keys data_row;
                           pass1 = form_field_pass fmt_Y data_row normalized (doc_root doc);
                           doc1 = doc\<lparr>doc_root := fst pass1\<rparr>
                       in (case placeholder_pass fmt_Y data_row doc1 of
                             None \<Rightarrow> None
                           | Some pass2 \<Rightarrow>
                               if fs_save_ok fs out
                               then Some (Some out, fs\<lparr>fs_files := (fs_files fs)(out \<mapsto> Docx (fst pass2))\<rparr>)
                               else Some (None, fs))))"

section \<open>Pipeline\<close>

text \<open>
  The body of the loop over the rows in \<open>main\<close> (main.py, lines 66 to 98). The Publish
  Sink is outside the program: \<open>exists\<close> is the answer of
  \<open>check_file_exists_on_sharepoint\<close> for a name, and the calls made are recorded. The clock
  reading \<open>timestamp\<close> and the label \<open>index\<close> of the row are given.
\<close>

datatype action = Exists string | Fill string | Put string

text \<open>The truth value of a cell in \<open>if ... and row['Entreprise/Commune']\<close>.\<close>

fun truthy :: "pyval \<Rightarrow> bool" where
  "truthy (PyStr s) = (s \<noteq> [])"
| "truthy PyNone = False"
| "truthy (PyBool b) = b"
| "truthy (PyInt i) = (i \<noteq> 0)"

definition word_filename :: "string \<Rightarrow> pyval \<Rightarrow> row \<Rightarrow> py_error + string" where
  "word_filename timestamp index data_row =
     (let fallback = Inr (''diagnostic_'' @ timestamp @ ''_'' @ py_str index @ ''.docx'')
      in case map_of data_row (PyStr ''Entreprise/Commune'') of
           None \<Rightarrow> fallback
         | Some cell \<Rightarrow>
             if truthy cell
             then (case cell of
                     PyStr s \<Rightarrow> Inr (''diagnostic_'' @ py_lower (replace_char CHR '' '' CHR ''_'' s) @ ''.docx'')
                   | _ \<Rightarrow> Inl AttributeError)
             else fallback)"

definition main_row ::
  "(nat \<Rightarrow> string) \<Rightarrow> (string \<Rightarrow> bool) \<Rightarrow> filesystem \<Rightarrow> string \<Rightarrow> string \<Rightarrow> pyval \<Rightarrow> row
     \<Rightarrow> (py_error + action list \<times> filesystem) option" where
  "main_row fmt_Y exists fs local_model_path timestamp index data_row =
     (case word_filename timestamp index data_row of
        Inl e \<Rightarrow> Some (Inl e)
      | Inr name \<Rightarrow>
          if exists name then Some (Inr ([Exists name], fs))
          else (case create_word_from_template fmt_Y fs local_model_path data_row (Some (''temp/'' @ name)) of
                  None \<Rightarrow> None
                | Some (None, fs') \<Rightarrow> Some (Inr ([Exists name, Fill name], fs'))
                | Some (Some result_path, fs') \<Rightarrow>
                    Some (Inr ([Exists name, Fill name, Put result_path], fs'))))"

section \<open>Documents and file systems of the examples\<close>

text \<open>
  A content control as Word writes it: its properties, which hold the tag, and its content,
  a run with one text element. A document part is a \<open>w:document\<close> with one \<open>w:body\<close>.
\<close>

definition content_control :: "string \<Rightarrow> string \<Rightarrow> xml" where
  "content_control tag shown =
     Elem ''w:sdt'' None []
       [Elem ''w:sdtPr'' None [] [Elem ''w:tag'' (Some tag) [] []],
        Elem ''w:sdtContent'' None [] [Elem ''w:r'' None [] [Elem ''w:t'' None shown []]]]"

definition document_part :: "xml list \<Rightarrow> xml" where
  "document_part body = Elem ''w:document'' None [] [Elem ''w:body'' None [] body]"

definition fs_empty :: filesystem where
  "fs_empty = \<lparr>fs_files = Map.empty, fs_mkdir_ok = (\<lambda>p. True), fs_save_ok = (\<lambda>p. True),
     fs_temp_output = ''tmp/document.docx''\<rparr>"






definition row_bad_cell :: row where
  "row_bad_cell = [(PyStr ''nom'', PyStr [CHR 0x0B]), (PyStr ''email'', PyStr ''a@b.fr'')]"

section \<open>Run texts as the specification reads them\<close>

text \<open>
  The specification speaks of a run as literal text with placeholder tokens \<open>${name}\<close> in
  it. A run text is described by its pieces; \<open>template_text\<close> is the text of the run in the
  template, and \<open>merged_text\<close> the text the specification asks for: each token whose name is
  exactly the text of a label of the row replaced by the formatted cell of that label, the
  first such label if there are several, and every other token left as it is.
\<close>

datatype piece = Literal string | Token string

definition token_text :: "string \<Rightarrow> string" where
  "token_text name = ''${'' @ name @ ''}''"

fun piece_text :: "piece \<Rightarrow> string" where
  "piece_text (Literal s) = s"
| "piece_text (Token name) = token_text name"

definition template_text :: "piece list \<Rightarrow> string" where
  "template_text ps = concat (map piece_text ps)"




text \<open>
  Text that a run stores as it is given: XML compatible and without a carriage return.
  Plain text is such text without a dollar sign. A plain piece is a plain literal, or a
  token whose name is plain and has no closing brace.
\<close>

definition stored_as_is :: "string \<Rightarrow> bool" where
  "stored_as_is s = list_all (\<lambda>c. xml_char c \<and> c \<noteq> CHR 0x0D) s"



section \<open>Form fields as the specification reads them\<close>






definition three_fields :: xml where
  "three_fields = document_part [content_control ''Email '' ''Cliquez ici'', content_control ''autre'' ''Cliquez ici'',
     content_control ''EMAIL'' ''Cliquez ici'']"

definition row_email :: row where
  "row_email = [(PyStr ''email'', PyStr ''a@b.fr'')]"


section \<open>Notions used in the proofs about the replacement loop\<close>






text \<open>The letters that \<open>str.lower\<close> changes.\<close>

definition is_upper :: "char \<Rightarrow> bool" where
  "is_upper c \<longleftrightarrow> (65 \<le> (of_char c :: nat) \<and> (of_char c :: nat) \<le> 90)
     \<or> (192 \<le> (of_char c :: nat) \<and> (of_char c :: nat) \<le> 222 \<and> (of_char c :: nat) \<noteq> 215)"




section \<open>Verification: key normalizer\<close>

lemma fold_replace_char:
  "fold (\<lambda>ch t. replace_char ch new t) chs s = map (\<lambda>c. if c \<in> set chs then new else c) s" if "new \<notin> set chs"
  using that
proof (induction chs arbitrary: s)
  case Nil
  then show ?case by simp
next
  case (Cons a chs)
  then show ?case by (auto simp: replace_char_def)
qed

lemma space_not_punctuation: "CHR '' '' \<notin> set punctuation"
  by (simp add: punctuation_def)

lemma replace_punctuation_fold:
  "fold (\<lambda>ch t. replace_char ch CHR '' '' t) punctuation s = replace_punctuation s"
  by (simp add: fold_replace_char space_not_punctuation replace_punctuation_def is_punctuation_def)

definition rtrim :: "string \<Rightarrow> string" where
  "rtrim s = rev (dropWhile py_isspace (rev s))"

lemma collapse_ws_nonspace: "\<not> py_isspace c \<Longrightarrow> collapse_ws (c # xs) = c # collapse_ws xs"
  by (cases xs) auto

lemma collapse_ws_space:
  "py_isspace d \<Longrightarrow> collapse_ws (d # r) = CHR '' '' # collapse_ws (dropWhile py_isspace r)"
proof (induction r arbitrary: d)
  case Nil
  then show ?case by simp
next
  case (Cons e r)
  then show ?case by (auto simp: collapse_ws_nonspace)
qed

lemma space_isspace: "py_isspace CHR '' ''"
  by (simp add: py_isspace_def)

lemma ltrim_collapse_ws: "dropWhile py_isspace (collapse_ws s) = collapse_ws (dropWhile py_isspace s)"
proof (induction s rule: collapse_ws.induct)
  case 1
  then show ?case by simp
next
  case (2 c)
  then show ?case by (simp add: space_isspace)
next
  case (3 c d cs)
  then show ?case by (auto simp: space_isspace collapse_ws_nonspace)
qed

lemma collapse_ws_word:
  "\<forall>x\<in>set w. \<not> py_isspace x \<Longrightarrow> collapse_ws (w @ r) = w @ collapse_ws r"
  by (induction w) (auto simp: collapse_ws_nonspace)

lemma rtrim_append: "rtrim (a @ b) = (if rtrim b = [] then rtrim a else a @ rtrim b)"
  by (auto simp: rtrim_def dropWhile_append dropWhile_eq_Nil_conv)

lemma rtrim_word: "\<forall>x\<in>set w. \<not> py_isspace x \<Longrightarrow> rtrim w = w"
  by (cases w rule: rev_cases) (auto simp: rtrim_def)

lemma split_ws_nonempty: "[] \<notin> set (split_ws s)"
  by (induction s rule: split_ws.induct) auto

lemma join_space_Nil: "[] \<notin> set ws \<Longrightarrow> join_space ws = [] \<longleftrightarrow> ws = []"
  by (induction ws rule: join_space.induct) auto

lemma join_space_Cons: "join_space (w # ws) = (if ws = [] then w else w @ CHR '' '' # join_space ws)"
  by (cases ws) auto

lemma join_split_rtrim:
  "join_space (split_ws s) = rtrim (collapse_ws (dropWhile py_isspace s))"
proof (induction s rule: split_ws.induct)
  case 1
  then show ?case by (simp add: rtrim_def)
next
  case (2 c cs)
  show ?case
  proof (cases "py_isspace c")
    case True
    with 2 show ?thesis by simp
  next
    case False
    define w where "w = c # takeWhile (\<lambda>x. \<not> py_isspace x) cs"
    define r where "r = dropWhile (\<lambda>x. \<not> py_isspace x) cs"
    have w: "\<forall>x\<in>set w. \<not> py_isspace x"
      using False by (auto simp: w_def dest: set_takeWhileD)
    have s: "c # cs = w @ r" by (simp add: w_def r_def)
    have IH: "join_space (split_ws r) = rtrim (collapse_ws (dropWhile py_isspace r))"
      using 2(2) False by (simp add: r_def)
    have sp: "split_ws (c # cs) = w # split_ws r"
      using False by (simp add: w_def r_def)
    have lhs: "join_space (split_ws (c # cs)) = (if split_ws r = [] then w else w @ CHR '' '' # join_space (split_ws r))"
      by (simp only: sp join_space_Cons)
    have rhs0: "rtrim (collapse_ws (dropWhile py_isspace (c # cs))) = rtrim (w @ collapse_ws r)"
      using False w by (simp add: s[symmetric] collapse_ws_word[symmetric] del: collapse_ws.simps)
    have rhs: "rtrim (w @ collapse_ws r) = (if rtrim (collapse_ws r) = [] then w else w @ rtrim (collapse_ws r))"
      using w by (simp add: rtrim_append rtrim_word)
    have tail: "rtrim (collapse_ws r) = (if split_ws r = [] then [] else CHR '' '' # join_space (split_ws r))"
    proof (cases r)
      case Nil
      then show ?thesis by (simp add: rtrim_def)
    next
      case (Cons d r')
      have d: "py_isspace d"
        using Cons hd_dropWhile[of "\<lambda>x. \<not> py_isspace x" cs] by (auto simp: r_def)
      have "collapse_ws r = [CHR '' ''] @ collapse_ws (dropWhile py_isspace r)"
        using d Cons by (simp add: collapse_ws_space)
      moreover have "rtrim [CHR '' ''] = []"
        by (simp add: rtrim_def space_isspace)
      ultimately have "rtrim (collapse_ws r) = (if rtrim (collapse_ws (dropWhile py_isspace r)) = [] then [] else CHR '' '' # rtrim (collapse_ws (dropWhile py_isspace r)))"
        using rtrim_append[of "[CHR '' '']" "collapse_ws (dropWhile py_isspace r)"] by simp
      then show ?thesis
        using IH join_space_Nil[OF split_ws_nonempty, of r] by auto
    qed
    show ?thesis
      unfolding lhs rhs0 rhs tail by auto
  qed
qed

lemma join_split_trim_collapse: "join_space (split_ws s) = trim (collapse_ws s)"
  by (simp add: join_split_rtrim trim_def ltrim_collapse_ws rtrim_def)


lemma normalize_examples:
  "normalize_string (PyStr ''Entreprise/Commune'') = ''entreprise commune''"
  "normalize_string (PyStr ''entreprise   commune'') = ''entreprise commune''"
  "normalize_string (PyStr ''ENTREPRISE-COMMUNE'') = ''entreprise commune''"
  "normalize_string PyNone = ''none''"
  by code_simp+

text \<open>
  Claim C1, as amended. On a string, \<open>normalize_string\<close> is exactly the steps of the
  specification in their order: strip diacritics (every character outside ASCII goes, an
  accented letter leaving its base letter), lower-case, punctuation to spaces, runs of
  whitespace to one space, trim. On a value that is not a string it is the lower-cased
  \<open>str\<close> of the value and nothing more; \<open>None\<close> gives \<open>none\<close>. It is total: no value
  raises. The three spellings of the identifying column give one key.
\<close>

theorem normalize_string_by_kind:
  "normalize_string (PyStr s) = normalize_steps (PyStr s)
   \<and> normalize_string PyNone = ''none''
   \<and> normalize_string (PyBool b) = py_lower (py_str (PyBool b))
   \<and> normalize_string (PyInt i) = py_lower (py_str (PyInt i))
   \<and> normalize_string (PyStr ''Entreprise/Commune'') = ''entreprise commune''
   \<and> normalize_string (PyStr ''entreprise   commune'') = ''entreprise commune''
   \<and> normalize_string (PyStr ''ENTREPRISE-COMMUNE'') = ''entreprise commune''"
proof -
  have "normalize_string (PyStr s) = normalize_steps (PyStr s)"
    by (simp add: normalize_string_def normalize_steps_def replace_punctuation_fold join_split_trim_collapse)
  moreover have "normalize_string (PyBool b) = py_lower (py_str (PyBool b))"
    by (simp add: normalize_string_def)
  moreover have "normalize_string (PyInt i) = py_lower (py_str (PyInt i))"
    by (simp add: normalize_string_def)
  ultimately show ?thesis
    by (simp only: normalize_examples simp_thms)
qed

text \<open>
  Claim C1 as stated fails on a value that is not a string: the label \<open>-5\<close> keeps its
  minus sign, which the punctuation step of the specification would turn into a space and
  the trim would remove.
\<close>

theorem normalize_string_int_counterexample:
  "normalize_string (PyInt (- 5)) \<noteq> normalize_steps (PyInt (- 5))"
  by code_simp

section \<open>Verification: value formatter\<close>



lemma py_int_1: "py_int [a] = digit_val a"
  by (simp add: py_int_def)




































section \<open>Verification: normalized key table\<close>

lemma find_append_cases:
  "find P (xs @ ys) = (case find P xs of Some k \<Rightarrow> Some k | None \<Rightarrow> find P ys)"
  by (induction xs) auto

lemma find_Some_set: "find P xs = Some k \<Longrightarrow> k \<in> set xs \<and> P k"
  by (induction xs) (auto split: if_splits)

lemma fold_keys_find:
  "fold (\<lambda>key nk. nk(normalize_string key \<mapsto> key)) ks m n =
     (case find (\<lambda>k. normalize_string k = n) (rev ks) of Some k \<Rightarrow> Some k | None \<Rightarrow> m n)"
proof (induction ks arbitrary: m)
  case Nil
  then show ?case by simp
next
  case (Cons a ks)
  have "fold (\<lambda>key nk. nk(normalize_string key \<mapsto> key)) (a # ks) m n
      = fold (\<lambda>key nk. nk(normalize_string key \<mapsto> key)) ks (m(normalize_string a \<mapsto> a)) n"
    by simp
  also have "\<dots> = (case find (\<lambda>k. normalize_string k = n) (rev ks) of Some k \<Rightarrow> Some k
                     | None \<Rightarrow> (m(normalize_string a \<mapsto> a)) n)"
    by (rule Cons.IH)
  also have "\<dots> = (case find (\<lambda>k. normalize_string k = n) (rev (a # ks)) of Some k \<Rightarrow> Some k | None \<Rightarrow> m n)"
    by (auto simp add: find_append_cases split: option.splits)
  finally show ?case .
qed

lemma normalized_keys_find:
  "normalized_keys data_row n = find (\<lambda>k. normalize_string k = n) (rev (row_index data_row))"
  by (simp add: normalized_keys_def fold_keys_find split: option.splits)

lemma normalized_keys_label:
  assumes "normalized_keys data_row n = Some k"
  shows "k \<in> set (row_index data_row) \<and> normalize_string k = n"
  using find_Some_set[of "\<lambda>k. normalize_string k = n" "rev (row_index data_row)" k] assms
  by (simp add: normalized_keys_find)

lemma normalized_keys_dom:
  "dom (normalized_keys data_row) = normalize_string ` set (row_index data_row)"
proof -
  have "normalized_keys data_row n \<noteq> None \<longleftrightarrow> n \<in> normalize_string ` set (row_index data_row)" for n
    by (auto simp: normalized_keys_find find_None_iff)
  then show ?thesis by (auto simp: dom_def)
qed

lemma normalized_keys_last:
  assumes "row_index data_row = ks1 @ [k] @ ks2"
    and "\<forall>k'\<in>set ks2. normalize_string k' \<noteq> normalize_string k"
  shows "normalized_keys data_row (normalize_string k) = Some k"
proof -
  have "find (\<lambda>k'. normalize_string k' = normalize_string k) (rev ks2) = None"
    using assms(2) by (simp add: find_None_iff)
  then show ?thesis
    using assms(1) by (simp add: normalized_keys_find find_append_cases)
qed

lemma normalized_keys_alone:
  assumes "k \<in> set (row_index data_row)"
    and "\<forall>k'\<in>set (row_index data_row). normalize_string k' = normalize_string k \<longrightarrow> k' = k"
  shows "normalized_keys data_row (normalize_string k) = Some k"
proof -
  from assms(1) have "normalized_keys data_row (normalize_string k) \<noteq> None"
    by (auto simp: normalized_keys_find find_None_iff)
  then obtain k' where k': "normalized_keys data_row (normalize_string k) = Some k'" by auto
  from normalized_keys_label[OF k'] assms(2) have "k' = k" by blast
  with k' show ?thesis by simp
qed

lemma normalized_keys_earlier:
  assumes "row_index data_row = ks1 @ [k1] @ ks2"
    and "k2 \<in> set ks2" and "normalize_string k2 = normalize_string k1" and "k1 \<notin> set ks2"
  shows "(\<exists>k\<in>set ks2. normalized_keys data_row (normalize_string k1) = Some k)
    \<and> (\<forall>n. normalized_keys data_row n \<noteq> Some k1)"
proof -
  have "find (\<lambda>k'. normalize_string k' = normalize_string k1) (rev ks2) \<noteq> None"
    using assms(2,3) by (auto simp: find_None_iff)
  then obtain k where k: "find (\<lambda>k'. normalize_string k' = normalize_string k1) (rev ks2) = Some k" by auto
  then have in2: "k \<in> set ks2" using find_Some_set[OF k] by simp
  have 1: "normalized_keys data_row (normalize_string k1) = Some k"
    using assms(1) k by (simp add: normalized_keys_find find_append_cases)
  have "normalized_keys data_row n \<noteq> Some k1" for n
  proof
    assume a: "normalized_keys data_row n = Some k1"
    then have "n = normalize_string k1" using normalized_keys_label by blast
    with a 1 in2 assms(4) show False by auto
  qed
  with 1 in2 show ?thesis by blast
qed

text \<open>
  Claim C5. The table is a function of the row alone, built from the empty table, and
  building it cannot raise. For every row it maps a normalized name to a label of the row:
  the key \<open>n\<close> leads to the last label of the row whose normalized name is \<open>n\<close>, so its keys
  are exactly the normalized names of the labels, every label it gives is a label of the
  row with that normalized name, and a label that shares its normalized name with no other
  is found under it. When two labels normalize to the same key and no later label does,
  the key leads to the later one; and a label followed by a different label with the same
  normalized name is given by no key of the table.
\<close>

theorem normalized_keys_later_wins:
  "normalized_keys [] = Map.empty
   \<and> normalized_keys data_row n = find (\<lambda>k. normalize_string k = n) (rev (row_index data_row))
   \<and> dom (normalized_keys data_row) = normalize_string ` set (row_index data_row)
   \<and> (\<forall>n k. normalized_keys data_row n = Some k \<longrightarrow> k \<in> set (row_index data_row) \<and> normalize_string k = n)
   \<and> (\<forall>k\<in>set (row_index data_row).
         (\<forall>k'\<in>set (row_index data_row). normalize_string k' = normalize_string k \<longrightarrow> k' = k) \<longrightarrow>
         normalized_keys data_row (normalize_string k) = Some k)
   \<and> (row_index data_row = ks1 @ [k1] @ ks2 @ [k2] @ ks3 \<longrightarrow> normalize_string k1 = normalize_string k2 \<longrightarrow>
        (\<forall>k\<in>set ks3. normalize_string k \<noteq> normalize_string k2) \<longrightarrow>
        normalized_keys data_row (normalize_string k1) = Some k2)
   \<and> (row_index data_row = ks1 @ [k1] @ ks2 \<longrightarrow> k2 \<in> set ks2 \<longrightarrow> normalize_string k2 = normalize_string k1 \<longrightarrow>
        k1 \<notin> set ks2 \<longrightarrow>
        (\<exists>k\<in>set ks2. normalized_keys data_row (normalize_string k1) = Some k)
        \<and> (\<forall>n. normalized_keys data_row n \<noteq> Some k1))"
proof -
  have 1: "normalized_keys [] = Map.empty"
    by (simp add: normalized_keys_def row_index_def)
  have 6: "normalized_keys data_row (normalize_string k1) = Some k2"
    if "row_index data_row = ks1 @ [k1] @ ks2 @ [k2] @ ks3" "normalize_string k1 = normalize_string k2"
      "\<forall>k\<in>set ks3. normalize_string k \<noteq> normalize_string k2"
    using normalized_keys_last[of data_row "ks1 @ [k1] @ ks2" k2 ks3] that by simp
  show ?thesis
    using 1 normalized_keys_find[of data_row n] normalized_keys_dom[of data_row]
      normalized_keys_label[of data_row] normalized_keys_alone[of _ data_row] 6
      normalized_keys_earlier[of data_row ks1 k1 ks2 k2]
    by (intro conjI allI ballI impI) blast+
qed

text \<open>The labels \<open>Nom\<close> and \<open>nom\<close> followed by a blank collide on the key \<open>nom\<close>; the labels
  \<open>Nom\<close> and \<open>prenom\<close> do not collide.\<close>

theorem normalized_keys_later_wins_witness:
  "normalized_keys [(PyStr ''Nom'', PyStr ''a''), (PyStr ''nom '', PyStr ''b'')] ''nom'' = Some (PyStr ''nom '')
   \<and> (\<forall>n. normalized_keys [(PyStr ''Nom'', PyStr ''a''), (PyStr ''nom '', PyStr ''b'')] n \<noteq> Some (PyStr ''Nom''))
   \<and> normalized_keys [(PyStr ''Nom'', PyStr ''a''), (PyStr ''prenom'', PyStr ''b'')] ''prenom'' = Some (PyStr ''prenom'')"
proof -
  let ?r = "[(PyStr ''Nom'', PyStr ''a''), (PyStr ''nom '', PyStr ''b'')]"
  let ?s = "[(PyStr ''Nom'', PyStr ''a''), (PyStr ''prenom'', PyStr ''b'')]"
  have h1: "row_index ?r = [] @ [PyStr ''Nom''] @ [] @ [PyStr ''nom ''] @ []"
    by (simp add: row_index_def)
  have h2: "normalize_string (PyStr ''Nom'') = normalize_string (PyStr ''nom '')"
    by code_simp
  have h4: "\<forall>k\<in>set []. normalize_string k \<noteq> normalize_string (PyStr ''nom '')" by simp
  have n: "normalize_string (PyStr ''Nom'') = ''nom''" by code_simp
  have g1: "row_index ?r = [] @ [PyStr ''Nom''] @ [PyStr ''nom '']"
    by (simp add: row_index_def)
  have g2: "PyStr ''nom '' \<in> set [PyStr ''nom '']" by simp
  have g4: "PyStr ''Nom'' \<notin> set [PyStr ''nom '']" by simp
  note th = normalized_keys_later_wins[of ?r n "[]" "PyStr ''Nom''" "[]" "PyStr ''nom ''" "[]"]
  note a = th[THEN conjunct2, THEN conjunct2, THEN conjunct2, THEN conjunct2, THEN conjunct2, THEN conjunct1]
  have A: "normalized_keys ?r ''nom'' = Some (PyStr ''nom '')"
    using mp[OF mp[OF mp[OF a h1] h2] h4] unfolding n .
  note th2 = normalized_keys_later_wins[of ?r n "[]" "PyStr ''Nom''" "[PyStr ''nom '']" "PyStr ''nom ''"]
  note b = th2[THEN conjunct2, THEN conjunct2, THEN conjunct2, THEN conjunct2, THEN conjunct2, THEN conjunct2]
  have B: "\<forall>n. normalized_keys ?r n \<noteq> Some (PyStr ''Nom'')"
    using mp[OF mp[OF mp[OF mp[OF b g1] g2] h2[symmetric]] g4] by blast
  have p: "normalize_string (PyStr ''prenom'') = ''prenom''" by code_simp
  have i: "PyStr ''prenom'' \<in> set (row_index ?s)" by (simp add: row_index_def)
  have u: "\<forall>k'\<in>set (row_index ?s). normalize_string k' = normalize_string (PyStr ''prenom'') \<longrightarrow> k' = PyStr ''prenom''"
    unfolding p by (simp add: row_index_def n)
  note th3 = normalized_keys_later_wins[of ?s]
  note c = th3[THEN conjunct2, THEN conjunct2, THEN conjunct2, THEN conjunct2, THEN conjunct1]
  have C: "normalized_keys ?s ''prenom'' = Some (PyStr ''prenom'')"
    using mp[OF bspec[OF c i] u] unfolding p .
  from A B C show ?thesis by blast
qed

section \<open>Verification: the replacement loop ends\<close>































section \<open>Verification: the pipeline\<close>

lemma lower_char_not_upper: "\<not> is_upper c \<Longrightarrow> lower_char c = c"
  unfolding lower_char_def is_upper_def Let_def by (rule if_not_P)

lemma lower_char_upper:
  assumes "is_upper c"
  shows "(of_char (lower_char c) :: nat) = of_char c + 32"
proof -
  have "lower_char c = char_of ((of_char c :: nat) + 32)"
    using assms unfolding lower_char_def is_upper_def Let_def by (rule if_P)
  moreover have "(of_char c :: nat) + 32 < 256"
    using assms unfolding is_upper_def by linarith
  ultimately show ?thesis by (simp add: of_char_of)
qed

lemma lower_char_blank: "lower_char c = CHR '' '' \<longleftrightarrow> c = CHR '' ''"
proof (cases "is_upper c")
  case True
  from lower_char_upper[OF this] have "(of_char (lower_char c) :: nat) \<noteq> 32"
    using True unfolding is_upper_def by linarith
  then have "lower_char c \<noteq> CHR '' ''" by auto
  moreover have "c \<noteq> CHR '' ''" using True unfolding is_upper_def by auto
  ultimately show ?thesis by simp
next
  case False
  then show ?thesis by (simp add: lower_char_not_upper)
qed

lemma lower_char_underscore: "lower_char CHR ''_'' = CHR ''_''"
  by (rule lower_char_not_upper) (simp add: is_upper_def)

lemma lower_replace_commute:
  "py_lower (replace_char CHR '' '' CHR ''_'' s) = replace_char CHR '' '' CHR ''_'' (py_lower s)"
  by (induction s) (simp_all add: py_lower_def replace_char_def lower_char_blank lower_char_underscore)


text \<open>
  Claim C8. For a row whose identifying column \<open>Entreprise/Commune\<close> holds a non-empty
  string, the name is \<open>diagnostic_\<close>, the value lower-cased with its spaces replaced by
  underscores, and \<open>.docx\<close>; when the column is absent or empty the name is made of the
  timestamp and the index of the row. The pipeline asks \<open>exists\<close> for that name; when the
  answer is true it does nothing more for the row; otherwise it fills, and it calls \<open>put\<close>
  only then, and only with the path the filling returned.
\<close>

theorem main_row_naming:
  "(map_of data_row (PyStr ''Entreprise/Commune'') = Some (PyStr s) \<longrightarrow> s \<noteq> [] \<longrightarrow>
      word_filename ts idx data_row = Inr (''diagnostic_'' @ replace_char CHR '' '' CHR ''_'' (py_lower s) @ ''.docx''))
   \<and> (map_of data_row (PyStr ''Entreprise/Commune'') = None
        \<or> map_of data_row (PyStr ''Entreprise/Commune'') = Some (PyStr []) \<longrightarrow>
      word_filename ts idx data_row = Inr (''diagnostic_'' @ ts @ ''_'' @ py_str idx @ ''.docx''))
   \<and> (\<forall>name. word_filename ts idx data_row = Inr name \<longrightarrow> exists name \<longrightarrow>
      main_row fmt_Y exists fs model ts idx data_row = Some (Inr ([Exists name], fs)))
   \<and> (\<forall>name. word_filename ts idx data_row = Inr name \<longrightarrow> \<not> exists name \<longrightarrow>
      main_row fmt_Y exists fs model ts idx data_row =
        (case create_word_from_template fmt_Y fs model data_row (Some (''temp/'' @ name)) of
           None \<Rightarrow> None
         | Some (r, fs') \<Rightarrow>
             Some (Inr (Exists name # Fill name # (case r of None \<Rightarrow> [] | Some p \<Rightarrow> [Put p]), fs'))))
   \<and> (\<forall>acts fs' p. main_row fmt_Y exists fs model ts idx data_row = Some (Inr (acts, fs')) \<longrightarrow>
      Put p \<in> set acts \<longrightarrow>
      (\<exists>name. word_filename ts idx data_row = Inr name \<and> \<not> exists name
         \<and> create_word_from_template fmt_Y fs model data_row (Some (''temp/'' @ name)) = Some (Some p, fs')))"
proof -
  have 1: "word_filename ts idx data_row = Inr (''diagnostic_'' @ replace_char CHR '' '' CHR ''_'' (py_lower s) @ ''.docx'')"
    if "map_of data_row (PyStr ''Entreprise/Commune'') = Some (PyStr s)" "s \<noteq> []"
    using that by (simp add: word_filename_def lower_replace_commute)
  have 2: "word_filename ts idx data_row = Inr (''diagnostic_'' @ ts @ ''_'' @ py_str idx @ ''.docx'')"
    if "map_of data_row (PyStr ''Entreprise/Commune'') = None
        \<or> map_of data_row (PyStr ''Entreprise/Commune'') = Some (PyStr [])"
    using that by (auto simp: word_filename_def)
  have 3: "main_row fmt_Y exists fs model ts idx data_row = Some (Inr ([Exists name], fs))"
    if "word_filename ts idx data_row = Inr name" "exists name" for name
    using that by (simp add: main_row_def)
  have 4: "main_row fmt_Y exists fs model ts idx data_row =
        (case create_word_from_template fmt_Y fs model data_row (Some (''temp/'' @ name)) of
           None \<Rightarrow> None
         | Some (r, fs') \<Rightarrow>
             Some (Inr (Exists name # Fill name # (case r of None \<Rightarrow> [] | Some p \<Rightarrow> [Put p]), fs')))"
    if "word_filename ts idx data_row = Inr name" "\<not> exists name" for name
    using that by (simp add: main_row_def split: option.splits)
  have 5: "\<exists>name. word_filename ts idx data_row = Inr name \<and> \<not> exists name
         \<and> create_word_from_template fmt_Y fs model data_row (Some (''temp/'' @ name)) = Some (Some p, fs')"
    if "main_row fmt_Y exists fs model ts idx data_row = Some (Inr (acts, fs'))" "Put p \<in> set acts" for acts fs' p
    using that by (auto simp: main_row_def split: sum.splits if_splits option.splits)
  show ?thesis using 1 2 3 4 5 by blast
qed

text \<open>A row for \<open>Ville de Lyon\<close> that the sink already has, and a row with an empty name.\<close>

theorem main_row_naming_witness:
  "word_filename ''20240305_100000'' (PyInt 0) [(PyStr ''Entreprise/Commune'', PyStr ''Ville de Lyon'')]
     = Inr ''diagnostic_ville_de_lyon.docx''
   \<and> main_row fmt_Y_glibc (\<lambda>name. True) fs_empty ''temp/modele.docx'' ''20240305_100000'' (PyInt 0)
        [(PyStr ''Entreprise/Commune'', PyStr ''Ville de Lyon'')]
     = Some (Inr ([Exists ''diagnostic_ville_de_lyon.docx''], fs_empty))
   \<and> word_filename ''20240305_100000'' (PyInt 7) [(PyStr ''Entreprise/Commune'', PyStr [])]
     = Inr ''diagnostic_20240305_100000_7.docx''"
proof -
  have m: "map_of [(PyStr ''Entreprise/Commune'', PyStr ''Ville de Lyon'')] (PyStr ''Entreprise/Commune'') = Some (PyStr ''Ville de Lyon'')"
    by simp
  have l: "replace_char CHR '' '' CHR ''_'' (py_lower ''Ville de Lyon'') = ''ville_de_lyon''"
    by code_simp
  have d: "py_str (PyInt 7) = ''7''" by code_simp
  note t = main_row_naming[of "[(PyStr ''Entreprise/Commune'', PyStr ''Ville de Lyon'')]" "''Ville de Lyon''"
      "''20240305_100000''" "PyInt 0" "\<lambda>name. True" fmt_Y_glibc fs_empty "''temp/modele.docx''"]
  have w: "word_filename ''20240305_100000'' (PyInt 0) [(PyStr ''Entreprise/Commune'', PyStr ''Ville de Lyon'')]
     = Inr ''diagnostic_ville_de_lyon.docx''"
    using t m l by simp
  moreover have "main_row fmt_Y_glibc (\<lambda>name. True) fs_empty ''temp/modele.docx'' ''20240305_100000'' (PyInt 0)
        [(PyStr ''Entreprise/Commune'', PyStr ''Ville de Lyon'')]
     = Some (Inr ([Exists ''diagnostic_ville_de_lyon.docx''], fs_empty))"
    using t w by blast
  moreover have "word_filename ''20240305_100000'' (PyInt 7) [(PyStr ''Entreprise/Commune'', PyStr [])]
     = Inr ''diagnostic_20240305_100000_7.docx''"
    using main_row_naming[of "[(PyStr ''Entreprise/Commune'', PyStr [])]" "[]" "''20240305_100000''" "PyInt 7"] d
    by simp
  ultimately show ?thesis by blast
qed

section \<open>Verification: failures inside a pass, and the save\<close>






lemma nk_bad: "normalized_keys row_bad_cell ''nom'' = Some (PyStr ''nom'')" "normalized_keys row_bad_cell ''email'' = Some (PyStr ''email'')"
  by code_simp+













section \<open>Verification: form fields\<close>






subsection \<open>One field, in the words of the specification\<close>








subsection \<open>The fields of a document\<close>











subsection \<open>The pass\<close>




lemma three_fields_pass:
  "form_field_pass fmt_Y_glibc row_email (normalized_keys row_email) three_fields
    = (document_part [content_control ''Email '' ''a@b.fr'', content_control ''autre'' ''Cliquez ici'',
                      content_control ''EMAIL'' ''a@b.fr''], None)"
  by code_simp




section \<open>Verification: placeholders\<close>




lemma stored_as_is_append [simp]: "stored_as_is (a @ b) \<longleftrightarrow> stored_as_is a \<and> stored_as_is b"
  by (simp add: stored_as_is_def)



lemma template_text_simps [simp]:
  "template_text [] = []"
  "template_text (p # ps) = piece_text p @ template_text ps"
  "template_text (ps @ qs) = template_text ps @ template_text qs"
  by (simp_all add: template_text_def)




























end
